theory Spec2Isabelle
  imports Main
begin

section \<open>Strings and regular expressions of the host language\<close>

text \<open>
  The plugin is TypeScript. Its strings are modelled as \<^typ>\<open>string\<close>: a list of code
  units, restricted to U+0000..U+00FF. The three string methods the transform uses
  (\<open>slice\<close>, \<open>replace\<close>, \<open>match\<close>) and the fixed regular expressions of
  \<open>main.ts\<close> are written out as list functions; the regular expression compiled from
  the user's "From" setting and the other services of the host are parameters.
\<close>

definition isWhiteSpace :: "char \<Rightarrow> bool" where
  \<comment> \<open>The class \<open>\s\<close> on U+0000..U+00FF: TAB, LF, VT, FF, CR, SPACE, NBSP.\<close>
  "isWhiteSpace c = (of_char c \<in> {9, 10, 11, 12, 13, 32, 160 :: nat})"

definition isBlockIDChar :: "char \<Rightarrow> bool" where
  \<comment> \<open>The class \<open>[a-zA-Z0-9-]\<close>.\<close>
  "isBlockIDChar c =
     (let n = (of_char c :: nat)
      in (97 \<le> n \<and> n \<le> 122) \<or> (65 \<le> n \<and> n \<le> 90) \<or> (48 \<le> n \<and> n \<le> 57) \<or> n = 45)"

definition isTokenChar :: "char \<Rightarrow> bool" where
  \<comment> \<open>The alphabet the spec gives for anchor tokens, \<open>[a-z0-9-]\<close>: a lowercase letter,
      a digit or the hyphen. The alphabet of the code is \<open>characters\<close> below.\<close>
  "isTokenChar c =
     ((97 \<le> (of_char c :: nat) \<and> (of_char c :: nat) \<le> 122)
      \<or> (48 \<le> (of_char c :: nat) \<and> (of_char c :: nat) \<le> 57) \<or> c = CHR ''-'')"

definition slice :: "string \<Rightarrow> int \<Rightarrow> int \<Rightarrow> string" where
  \<comment> \<open>\<open>String.prototype.slice(start, end)\<close>: a negative bound counts from the end,
      every bound is clamped to the string, an empty range gives the empty string.\<close>
  "slice s start end' =
     (let len = int (length s);
          from = (if start < 0 then max (len + start) 0 else min start len);
          to = (if end' < 0 then max (len + end') 0 else min end' len)
      in take (nat (to - from)) (drop (nat from) s))"

fun join :: "string \<Rightarrow> string list \<Rightarrow> string" where
  \<comment> \<open>\<open>Array.prototype.join(sep)\<close> on an array of strings.\<close>
  "join sep [] = []"
| "join sep [x] = x"
| "join sep (x # y # ys) = x @ sep @ join sep (y # ys)"

fun indexOf :: "string \<Rightarrow> string \<Rightarrow> nat option" where
  \<comment> \<open>Index of the first occurrence of \<open>pat\<close> in the string, \<open>None\<close> for -1.\<close>
  "indexOf [] pat = (if pat = [] then Some 0 else None)"
| "indexOf (c # cs) pat =
     (if take (length pat) (c # cs) = pat then Some 0
      else map_option Suc (indexOf cs pat))"

record Match =
  index :: nat
  matchLength :: nat
  captures :: "string option list"
  namedCaptures :: "(string \<times> string option) list option"

text \<open>
  A compiled regular expression without the \<open>g\<close> flag is its \<open>exec\<close> function: the
  leftmost match in a string, or \<open>None\<close> for \<open>null\<close>. A capture that did not
  take part in the match is \<open>None\<close> (\<open>undefined\<close>); \<open>namedCaptures\<close> is
  \<open>None\<close> when the pattern has no named group.
\<close>

type_synonym RegExp = "string \<Rightarrow> Match option"

definition isDecimalDigit :: "char \<Rightarrow> bool" where
  "isDecimalDigit c = (let n = (of_char c :: nat) in 48 \<le> n \<and> n \<le> 57)"

definition digitValue :: "char \<Rightarrow> nat" where
  "digitValue c = of_char c - 48"

definition captureText :: "string option list \<Rightarrow> nat \<Rightarrow> string" where
  \<comment> \<open>The text of capture \<open>i\<close> (counted from 1); an undefined capture is empty.\<close>
  "captureText caps i = (case caps ! (i - 1) of None \<Rightarrow> [] | Some t \<Rightarrow> t)"

fun GetSubstitution ::
  "string \<Rightarrow> string \<Rightarrow> nat \<Rightarrow> string option list \<Rightarrow> (string \<times> string option) list option
     \<Rightarrow> string \<Rightarrow> string" where
  \<comment> \<open>ECMAScript's GetSubstitution: the expansion of the \<open>$\<close> patterns of a
      replacement string (\<open>$$\<close>, \<open>$&\<close>, \<open>$`\<close>, \<open>$'\<close>, \<open>$n\<close>, \<open>$nn\<close>,
      \<open>$<name>\<close>) that \<open>replace\<close> performs when its second argument is a string.\<close>
  "GetSubstitution matched str position caps named [] = []"
| "GetSubstitution matched str position caps named [c] = [c]"
| "GetSubstitution matched str position caps named (c # d # rest) =
     (if c \<noteq> CHR ''$'' then c # GetSubstitution matched str position caps named (d # rest)
      else if d = CHR ''$'' then CHR ''$'' # GetSubstitution matched str position caps named rest
      else if d = CHR 0x60 then
        take position str @ GetSubstitution matched str position caps named rest
      else if d = CHR ''&'' then
        matched @ GetSubstitution matched str position caps named rest
      else if d = CHR 0x27 then
        drop (min (position + length matched) (length str)) str
          @ GetSubstitution matched str position caps named rest
      else if isDecimalDigit d then
        (let two = (case rest of [] \<Rightarrow> False | d2 # _ \<Rightarrow>
                      isDecimalDigit d2 \<and> 10 * digitValue d + digitValue (hd rest) \<le> length caps);
             i = (if two then 10 * digitValue d + digitValue (hd rest) else digitValue d);
             rest' = (if two then tl rest else rest);
             ref = (if two then [c, d, hd rest] else [c, d])
         in (if 1 \<le> i \<and> i \<le> length caps then captureText caps i else ref)
              @ GetSubstitution matched str position caps named rest')
      else if d = CHR ''<'' then
        (case (named, indexOf rest ''>'') of
           (Some groups, Some gt) \<Rightarrow>
             (case map_of groups (take gt rest) of
                Some (Some t) \<Rightarrow> t
              | _ \<Rightarrow> [])
               @ GetSubstitution matched str position caps named (drop (Suc gt) rest)
         | _ \<Rightarrow> CHR ''$'' # CHR ''<'' # GetSubstitution matched str position caps named rest)
      else CHR ''$'' # GetSubstitution matched str position caps named (d # rest))"

definition replaceString :: "string \<Rightarrow> string \<Rightarrow> string \<Rightarrow> string" where
  \<comment> \<open>\<open>str.replace(searchString, replaceValue)\<close> with two strings: the first
      occurrence only, the replacement expanded by GetSubstitution.\<close>
  "replaceString str searchString replaceValue =
     (case indexOf str searchString of
        None \<Rightarrow> str
      | Some pos \<Rightarrow>
          take pos str
            @ GetSubstitution searchString str pos [] None replaceValue
            @ drop (pos + length searchString) str)"

definition replaceRegExp :: "string \<Rightarrow> RegExp \<Rightarrow> string \<Rightarrow> string" where
  \<comment> \<open>\<open>str.replace(regexp, replaceValue)\<close> for a regular expression without the
      \<open>g\<close> flag: the leftmost match only.\<close>
  "replaceRegExp str rx replaceValue =
     (case rx str of
        None \<Rightarrow> str
      | Some m \<Rightarrow>
          take (index m) str
            @ GetSubstitution (take (matchLength m) (drop (index m) str)) str (index m)
                (captures m) (namedCaptures m) replaceValue
            @ drop (index m + matchLength m) str)"


fun replaceAllEscape :: "char \<Rightarrow> char \<Rightarrow> string \<Rightarrow> string" where
  \<comment> \<open>\<open>str.replace(/\\e/g, r)\<close>: every backslash followed by the letter \<open>e\<close>,
      scanning from the left, becomes the one character \<open>r\<close>.\<close>
  "replaceAllEscape e r (a # b # cs) =
     (if a = CHR 0x5C \<and> b = e then r # replaceAllEscape e r cs
      else a # replaceAllEscape e r (b # cs))"
| "replaceAllEscape e r cs = cs"

subsection \<open>The fixed regular expressions of \<open>main.ts\<close>\<close>

fun blockIDIndex :: "char option \<Rightarrow> string \<Rightarrow> nat option" where
  \<comment> \<open>Leftmost position where \<open>(?<=[\s^])\^[a-zA-Z0-9-]+$\<close> matches; \<open>prev\<close> is the
      character before the position. Inside the class \<open>[\s^]\<close> the caret is not in
      first place, so it is the literal character \<open>^\<close>: the lookbehind asks for one
      character before the position, a white space or a caret.\<close>
  "blockIDIndex prev [] = None"
| "blockIDIndex prev (c # cs) =
     (if (case prev of None \<Rightarrow> False | Some p \<Rightarrow> isWhiteSpace p \<or> p = CHR ''^'')
         \<and> c = CHR ''^'' \<and> cs \<noteq> [] \<and> list_all isBlockIDChar cs
      then Some 0
      else map_option Suc (blockIDIndex (Some c) cs))"

definition blockIDRegex :: RegExp where
  "blockIDRegex str =
     (case blockIDIndex None str of
        None \<Rightarrow> None
      | Some i \<Rightarrow>
          Some \<lparr>index = i, matchLength = length str - i, captures = [], namedCaptures = None\<rparr>)"

definition leadingSpaceRegex :: RegExp where
  \<comment> \<open>\<open>/^\s*/\<close>: the longest run of white space at the start, possibly empty.\<close>
  "leadingSpaceRegex str =
     Some \<lparr>index = 0, matchLength = length (takeWhile isWhiteSpace str),
           captures = [], namedCaptures = None\<rparr>"

fun trailingSpaceIndex :: "string \<Rightarrow> nat" where
  \<comment> \<open>Leftmost position from which only white space follows up to the end.\<close>
  "trailingSpaceIndex [] = 0"
| "trailingSpaceIndex (c # cs) =
     (if list_all isWhiteSpace (c # cs) then 0 else Suc (trailingSpaceIndex cs))"

definition trailingSpaceRegex :: RegExp where
  \<comment> \<open>\<open>/\s*?$/\<close>: at a position the lazy star grows until the end of the string is
      reached, so the leftmost match is the whole run of white space at the end.\<close>
  "trailingSpaceRegex str =
     Some \<lparr>index = trailingSpaceIndex str, matchLength = length str - trailingSpaceIndex str,
           captures = [], namedCaptures = None\<rparr>"

definition blankRegex :: RegExp where
  \<comment> \<open>\<open>/^\s*$/\<close>: matches the whole string when it is empty or white space only.\<close>
  "blankRegex str =
     (if list_all isWhiteSpace str
      then Some \<lparr>index = 0, matchLength = length str, captures = [], namedCaptures = None\<rparr>
      else None)"

definition matchText :: "string \<Rightarrow> RegExp \<Rightarrow> string option" where
  \<comment> \<open>\<open>str.match(regexp)\<close> for a pattern without the \<open>g\<close> flag and without groups:
      \<open>None\<close> for \<open>null\<close>, else the one-element array, which converts to a string
      as its element, the matched text.\<close>
  "matchText str rx =
     (case rx str of None \<Rightarrow> None | Some m \<Rightarrow> Some (take (matchLength m) (drop (index m) str)))"

section \<open>Data of the plugin\<close>

record CarryForwardPluginSettings =
  linkText :: string
  copiedLinkText :: string
  lineFormatFrom :: string
  lineFormatTo :: string
  removeLeadingWhitespace :: bool

definition DEFAULT_SETTINGS :: CarryForwardPluginSettings where
  "DEFAULT_SETTINGS =
     \<lparr>linkText = [], copiedLinkText = ''(see {{LINK}})'',
      lineFormatFrom = [CHR 0x5C] @ ''s*$'', lineFormatTo = '' (see {{LINK}})'',
      removeLeadingWhitespace = True\<rparr>"

datatype CopyTypes = SeparateLines | CombinedLines | LinkOnly | LinkOnlyEmbed

datatype Mode = LinkTextFromSettings | LinkTextFromSelection | LinkTextFromClipboard

record EditorPosition =
  line :: nat
  ch :: nat

record Editor =
  getLine :: "nat \<Rightarrow> string"
  cursorFrom :: EditorPosition
  cursorTo :: EditorPosition
  getSelection :: string

datatype exn = SyntaxError string | ReadTextRejected string

text \<open>
  What the transform takes from its host: the \<open>RegExp\<close> constructor with the flag
  \<open>u\<close> (\<open>Inl\<close> the text of the SyntaxError it throws), the link formatter of the file
  manager for the file of the view (source path, subpath, alias), the text that
  \<open>navigator.clipboard.readText()\<close> resolves to (\<open>Inl\<close> when it rejects), and the
  values \<open>Math.floor(Math.random() * characters.length)\<close> takes from call to call, which
  are indices into \<open>characters\<close>: draw \<open>k\<close> is \<open>random k mod length characters\<close>.
\<close>

record Host =
  newRegExp :: "string \<Rightarrow> string + RegExp"
  generateMarkdownLink :: "string \<Rightarrow> string \<Rightarrow> string \<Rightarrow> string"
  readText :: "string + string"
  random :: "nat \<Rightarrow> nat"

section \<open>genID\<close>

definition characters :: string where
  "characters = ''abcdefghijklmnopqrstuvwxyz-0123456789''"

function genID_while :: "(nat \<Rightarrow> nat) \<Rightarrow> nat \<Rightarrow> string \<times> nat \<Rightarrow> string \<times> nat" where
  \<comment> \<open>The \<open>while\<close> loop of \<open>genID\<close>; the state is \<open>id\<close> and the number of draws made.\<close>
  "genID_while rnd len (ident, k) =
     (if length ident < len
      then genID_while rnd len (ident @ [characters ! (rnd k mod length characters)], Suc k)
      else (ident, k))"
  by pat_completeness auto
termination
  by (relation "measure (\<lambda>(rnd, len, ident, k). len - length ident)") auto

definition genID :: "(nat \<Rightarrow> nat) \<Rightarrow> nat \<Rightarrow> nat \<Rightarrow> string \<times> nat" where
  "genID rnd len k =
     (case genID_while rnd len ([], k) of (ident, k') \<Rightarrow> (slice ident 0 (int len), k'))"

section \<open>validateRegex\<close>

record RegexValidation =
  valid :: "bool option"
  string :: string

definition updatedRegexString :: "string \<Rightarrow> string" where
  \<comment> \<open>The pattern that is compiled for validation: \<open>regexString\<close> with every
      backslash-n, then backslash-t, then backslash-r turned into the control character.\<close>
  "updatedRegexString regexString =
     replaceAllEscape (CHR ''r'') (CHR 0x0D)
       (replaceAllEscape (CHR ''t'') (CHR 0x09)
         (replaceAllEscape (CHR ''n'') (CHR 0x0A) regexString))"

definition validateRegex :: "(string \<Rightarrow> string + RegExp) \<Rightarrow> string \<Rightarrow> RegexValidation" where
  "validateRegex newRegExp' regexString =
     (case newRegExp' (updatedRegexString regexString) of
        Inr rx \<Rightarrow> \<lparr>valid = Some True, string = updatedRegexString regexString\<rparr>
      | Inl e \<Rightarrow>
          \<lparr>valid = Some False,
           string = [CHR 0x22] @ updatedRegexString regexString @ [CHR 0x22] @ '': ''
                      @ [CHR 0x22] @ e @ [CHR 0x22]\<rparr>)"


section \<open>copyForwardLines\<close>

record LoopState =
  updatedLines :: "string list"
  copiedLines :: "string list"
  newID :: string
  draws :: nat

definition minLine :: "Editor \<Rightarrow> nat" where
  "minLine editor = line (cursorFrom editor)"

definition maxLine :: "Editor \<Rightarrow> nat" where
  "maxLine editor = line (cursorTo editor)"

definition stripApplies :: "CarryForwardPluginSettings \<Rightarrow> Editor \<Rightarrow> nat \<Rightarrow> bool" where
  \<comment> \<open>The condition of the first \<open>if\<close> of the loop body (leading white space).\<close>
  "stripApplies settings editor lineNumber =
     (removeLeadingWhitespace settings = True \<and> lineNumber = minLine editor
      \<and> ch (cursorFrom editor) = ch (cursorTo editor))"

definition sliceApplies :: "Editor \<Rightarrow> nat \<Rightarrow> bool" where
  \<comment> \<open>The condition of the second \<open>if\<close> of the loop body (column slicing).\<close>
  "sliceApplies editor lineNumber =
     ((lineNumber = minLine editor \<or> lineNumber = maxLine editor)
      \<and> \<not> (minLine editor = maxLine editor \<and> ch (cursorFrom editor) = ch (cursorTo editor)))"

definition initialCopiedLine :: "CarryForwardPluginSettings \<Rightarrow> Editor \<Rightarrow> nat \<Rightarrow> string" where
  \<comment> \<open>\<open>copiedLine\<close> after the first two \<open>if\<close>s of the loop body. The slice is taken
      from \<open>line\<close>, not from \<open>copiedLine\<close>.\<close>
  "initialCopiedLine settings editor lineNumber =
     (let line = getLine editor lineNumber;
          copiedLine = line;
          copiedLine = (if stripApplies settings editor lineNumber
                        then replaceRegExp copiedLine leadingSpaceRegex []
                        else copiedLine);
          copiedLine = (if sliceApplies editor lineNumber
                        then slice line
                               (if lineNumber = minLine editor then int (ch (cursorFrom editor)) else 0)
                               (if lineNumber = maxLine editor then int (ch (cursorTo editor))
                                else int (length line) - 1)
                        else copiedLine)
      in copiedLine)"

definition blankShortcut :: "Editor \<Rightarrow> nat \<Rightarrow> bool" where
  \<comment> \<open>The condition of the third \<open>if\<close>, whose branch ends with \<open>continue\<close>.\<close>
  "blankShortcut editor lineNumber =
     (matchText (getLine editor lineNumber) blankRegex \<noteq> None
      \<and> \<not> (lineNumber = minLine editor \<and> minLine editor = maxLine editor))"

definition activeLinkText ::
  "Host \<Rightarrow> Editor \<Rightarrow> CarryForwardPluginSettings \<Rightarrow> Mode \<Rightarrow> exn + string" where
  "activeLinkText host editor settings mode =
     (let linkText = linkText settings;
          linkText = (if mode = LinkTextFromSelection then getSelection editor else linkText)
      in if mode = LinkTextFromClipboard
         then (case readText host of Inl r \<Rightarrow> Inl (ReadTextRejected r) | Inr t \<Rightarrow> Inr t)
         else Inr linkText)"

definition isLinkUnit :: "Editor \<Rightarrow> CopyTypes \<Rightarrow> nat \<Rightarrow> bool" where
  "isLinkUnit editor copy lineNumber = (copy = SeparateLines \<or> lineNumber = minLine editor)"

definition composeLinkOnly :: "CarryForwardPluginSettings \<Rightarrow> CopyTypes \<Rightarrow> string \<Rightarrow> string" where
  \<comment> \<open>The branch for LinkOnly and LinkOnlyEmbed, the same text in both arms.\<close>
  "composeLinkOnly settings copy link0 =
     (let link = (if copy = LinkOnlyEmbed then ''!'' else []) @ link0
      in if copy = LinkOnlyEmbed then link
         else replaceString (copiedLinkText settings) ''{{LINK}}'' link)"

definition linkUnit ::
  "Host \<Rightarrow> CarryForwardPluginSettings \<Rightarrow> CopyTypes \<Rightarrow> string \<Rightarrow> string \<Rightarrow> string
     \<Rightarrow> string \<times> nat \<Rightarrow> exn + (string \<times> string \<times> string \<times> nat)" where
  \<comment> \<open>The body of \<open>if (copy === CopyTypes.SeparateLines || lineNumber === minLine)\<close>,
      from \<open>line\<close>, \<open>copiedLine\<close>, \<open>newID\<close> and the draws made so far to the new
      \<open>line\<close>, \<open>copiedLine\<close>, \<open>newID\<close> and draws; \<open>Inl\<close> when \<open>new RegExp\<close> throws.\<close>
  "linkUnit host settings copy linkText' lineText copiedLine idState =
     (case matchText lineText blockIDRegex of
        None \<Rightarrow>
          (let (ident, k) = genID (random host) 5 (snd idState);
               newID' = CHR ''^'' # ident;
               link = generateMarkdownLink host ''/'' (CHR ''#'' # newID') linkText';
               line' = replaceRegExp lineText trailingSpaceRegex (CHR '' '' # newID')
           in if copy = LinkOnly \<or> copy = LinkOnlyEmbed
              then Inr (line', composeLinkOnly settings copy link, newID', k)
              else (case newRegExp host (lineFormatFrom settings) of
                      Inl e \<Rightarrow> Inl (SyntaxError e)
                    | Inr rx \<Rightarrow>
                        Inr (line',
                             replaceRegExp copiedLine rx
                               (replaceString (lineFormatTo settings) ''{{LINK}}'' link),
                             newID', k)))
      | Some blockID \<Rightarrow>
          (let link = generateMarkdownLink host ''/'' (CHR ''#'' # blockID) linkText'
           in if copy = LinkOnly \<or> copy = LinkOnlyEmbed
              then Inr (lineText, composeLinkOnly settings copy link, fst idState, snd idState)
              else (case newRegExp host (lineFormatFrom settings) of
                      Inl e \<Rightarrow> Inl (SyntaxError e)
                    | Inr rx \<Rightarrow>
                        Inr (lineText,
                             replaceRegExp (replaceRegExp copiedLine blockIDRegex []) rx
                               (replaceString (lineFormatTo settings) ''{{LINK}}'' link),
                             fst idState, snd idState))))"

definition loopBody ::
  "Host \<Rightarrow> Editor \<Rightarrow> CarryForwardPluginSettings \<Rightarrow> CopyTypes \<Rightarrow> Mode \<Rightarrow> nat \<Rightarrow> LoopState
     \<Rightarrow> exn + LoopState" where
  "loopBody host editor settings copy mode lineNumber st =
     (let line = getLine editor lineNumber;
          copiedLine = initialCopiedLine settings editor lineNumber
      in if blankShortcut editor lineNumber
         then Inr (st\<lparr>copiedLines := copiedLines st @ [copiedLine],
                      updatedLines := updatedLines st @ [line]\<rparr>)
         else
           (case activeLinkText host editor settings mode of
              Inl x \<Rightarrow> Inl x
            | Inr linkText' \<Rightarrow>
                (case (if isLinkUnit editor copy lineNumber
                       then linkUnit host settings copy linkText' line copiedLine
                              (newID st, draws st)
                       else Inr (line, copiedLine, newID st, draws st)) of
                   Inl x \<Rightarrow> Inl x
                 | Inr (line', copiedLine', newID', k) \<Rightarrow>
                     Inr \<lparr>updatedLines = updatedLines st @ [line'],
                          copiedLines =
                            (if \<not> ((copy = LinkOnly \<or> copy = LinkOnlyEmbed)
                                    \<and> lineNumber \<noteq> minLine editor)
                             then copiedLines st @ [copiedLine']
                             else copiedLines st),
                          newID = newID', draws = k\<rparr>)))"

function copyForwardLoop ::
  "Host \<Rightarrow> Editor \<Rightarrow> CarryForwardPluginSettings \<Rightarrow> CopyTypes \<Rightarrow> Mode \<Rightarrow> nat \<Rightarrow> LoopState
     \<Rightarrow> exn + LoopState" where
  \<comment> \<open>\<open>for (let lineNumber = minLine; lineNumber <= maxLine; lineNumber++)\<close>, entered
      at \<open>lineNumber\<close>; an exception of the body leaves the loop.\<close>
  "copyForwardLoop host editor settings copy mode lineNumber st =
     (if lineNumber \<le> maxLine editor
      then (case loopBody host editor settings copy mode lineNumber st of
              Inl x \<Rightarrow> Inl x
            | Inr st' \<Rightarrow> copyForwardLoop host editor settings copy mode (Suc lineNumber) st')
      else Inr st)"
  by pat_completeness auto
termination
  by (relation "measure (\<lambda>(host, editor, settings, copy, mode, lineNumber, st).
                  Suc (maxLine editor) - lineNumber)") auto

record EditorChange =
  changeFrom :: EditorPosition
  changeTo :: EditorPosition
  changeText :: string

record EditorTransaction =
  changes :: "EditorChange list"
  selection :: "(EditorPosition \<times> EditorPosition) option"

datatype Effect =
    Notice string "nat option"
  | ClipboardWriteText string
  | EditorTransact EditorTransaction

record Outcome =
  effects :: "Effect list"
  rejected :: "exn option"

definition invalidFromNotice :: "RegexValidation \<Rightarrow> Effect" where
  "invalidFromNotice regexValidation =
     Notice (''Error: '' @ [CHR 0x27] @ ''From'' @ [CHR 0x27] @ '' setting is invalid:''
               @ [CHR 0x0A, CHR 0x0A] @ string regexValidation @ [CHR 0x0A, CHR 0x0A]
               @ ''Please update the Carry-Forward settings and try again.'')
            (Some (1000 * 30))"

definition initialState :: LoopState where
  "initialState = \<lparr>updatedLines = [], copiedLines = [], newID = [], draws = 0\<rparr>"

definition copyForwardLines ::
  "Host \<Rightarrow> Editor \<Rightarrow> CarryForwardPluginSettings \<Rightarrow> CopyTypes \<Rightarrow> Mode \<Rightarrow> Outcome" where
  \<comment> \<open>The effects of one call, in order, and the exception the returned promise is
      rejected with, if any. The notice "Copied" is shown when the clipboard write
      resolves, which is after the call has returned.\<close>
  "copyForwardLines host editor settings copy mode =
     (let regexValidation = validateRegex (newRegExp host) (lineFormatFrom settings)
      in if valid regexValidation \<noteq> Some True
         then \<lparr>effects = [invalidFromNotice regexValidation], rejected = None\<rparr>
         else
           (case copyForwardLoop host editor settings copy mode (minLine editor) initialState of
              Inl x \<Rightarrow> \<lparr>effects = [], rejected = Some x\<rparr>
            | Inr st \<Rightarrow>
                \<lparr>effects =
                   [ClipboardWriteText (join [CHR 0x0A] (copiedLines st)),
                    EditorTransact
                      \<lparr>changes =
                         [\<lparr>changeFrom = \<lparr>line = minLine editor, ch = 0\<rparr>,
                           changeTo = \<lparr>line = maxLine editor,
                                       ch = length (getLine editor (maxLine editor))\<rparr>,
                           changeText = join [CHR 0x0A] (updatedLines st)\<rparr>],
                       selection = Some (cursorFrom editor, cursorTo editor)\<rparr>,
                    Notice ''Copied'' None],
                 rejected = None\<rparr>))"


section \<open>A concrete host and editor\<close>

text \<open>
  A host for concrete runs. Its \<open>RegExp\<close> constructor knows the default "From" pattern
  \<open>\s*$\<close> (greedy, so its leftmost match is again the run of white space at the end) and
  rejects the unbalanced pattern \<open>(\<close>, as every engine does; it is not asked for any
  other pattern. Links are wiki links to a note called \<open>note\<close>, the alias after a bar
  when it is not empty. Draw \<open>k\<close> is \<open>k\<close>, so the first token is \<open>^abcde\<close>.
\<close>

definition exampleHost :: Host where
  "exampleHost =
     \<lparr>newRegExp = (\<lambda>pattern.
        if pattern = [CHR 0x5C] @ ''s*$'' then Inr trailingSpaceRegex
        else Inl (''SyntaxError: Invalid regular expression: /'' @ pattern
                    @ ''/u: Unterminated group'')),
      generateMarkdownLink = (\<lambda>sourcePath subpath alias.
        ''[[note'' @ subpath @ (if alias = [] then [] else CHR ''|'' # alias) @ '']]''),
      readText = Inr ''clip'',
      random = (\<lambda>k. k)\<rparr>"

definition editorOf :: "string list \<Rightarrow> nat \<times> nat \<Rightarrow> nat \<times> nat \<Rightarrow> string \<Rightarrow> Editor" where
  \<comment> \<open>An editor on a document given by its lines, with a selection and its text.\<close>
  "editorOf doc cFrom cTo sel =
     \<lparr>getLine = (\<lambda>n. if n < length doc then doc ! n else []),
      cursorFrom = \<lparr>line = fst cFrom, ch = snd cFrom\<rparr>,
      cursorTo = \<lparr>line = fst cTo, ch = snd cTo\<rparr>,
      getSelection = sel\<rparr>"


definition rewritten :: "Editor \<Rightarrow> string list \<Rightarrow> string \<Rightarrow> Editor" where
  \<comment> \<open>The editor after the transaction of a run: the lines from \<open>minLine\<close> to
      \<open>maxLine\<close> are the rewritten lines, the cursors are where they were, and the
      text of the selection is whatever it is now.\<close>
  "rewritten editor rewrittenLines sel =
     editor\<lparr>getLine := (\<lambda>n. if minLine editor \<le> n \<and> n \<le> maxLine editor
                            then rewrittenLines ! (n - minLine editor)
                            else getLine editor n),
            getSelection := sel\<rparr>"

section \<open>Facts about the string functions\<close>

lemma GetSubstitution_no_dollar:
  "CHR ''$'' \<notin> set t \<Longrightarrow> GetSubstitution matched str position caps named t = t"
proof (induction t rule: induct_list012)
  case (3 x y zs)
  from "3.prems" have x: "x \<noteq> CHR ''$''" and rest: "CHR ''$'' \<notin> set (y # zs)"
    by auto
  have "GetSubstitution matched str position caps named (x # y # zs)
          = x # GetSubstitution matched str position caps named (y # zs)"
    using x by (simp del: set_simps)
  with "3.IH"(2)[OF rest] show ?case by simp
qed simp_all

lemma replace_trailing:
  "CHR ''$'' \<notin> set t \<Longrightarrow>
     replaceRegExp str trailingSpaceRegex t = take (trailingSpaceIndex str) str @ t"
  by (simp add: replaceRegExp_def trailingSpaceRegex_def GetSubstitution_no_dollar)

lemma replace_leading: "replaceRegExp str leadingSpaceRegex [] = dropWhile isWhiteSpace str"
  by (simp add: replaceRegExp_def leadingSpaceRegex_def dropWhile_eq_drop)

lemma indexOf_first_occurrence:
  "indexOf str pat = Some i \<Longrightarrow>
     take (length pat) (drop i str) = pat
     \<and> (\<forall>j<i. take (length pat) (drop j str) \<noteq> pat)"
proof (induction str arbitrary: i)
  case Nil
  then show ?case by (auto split: if_splits)
next
  case (Cons c cs)
  show ?case
  proof (cases "take (length pat) (c # cs) = pat")
    case True
    with Cons.prems show ?thesis by simp
  next
    case False
    with Cons.prems obtain i' where i': "indexOf cs pat = Some i'" "i = Suc i'"
      by auto
    from Cons.IH[OF i'(1)] have
      a: "take (length pat) (drop i' cs) = pat"
      and b: "\<forall>j<i'. take (length pat) (drop j cs) \<noteq> pat" by auto
    have "\<forall>j<Suc i'. take (length pat) (drop j (c # cs)) \<noteq> pat"
    proof (intro allI impI)
      fix j assume "j < Suc i'"
      then show "take (length pat) (drop j (c # cs)) \<noteq> pat"
        using False b by (cases j) auto
    qed
    with a i'(2) show ?thesis by simp
  qed
qed

lemma replaceString_first_occurrence_only:
  "indexOf str pat = Some i \<Longrightarrow>
     replaceString str pat v
       = take i str @ GetSubstitution pat str i [] None v @ drop (i + length pat) str"
  by (simp add: replaceString_def)

lemma replaceString_literal:
  "indexOf str pat = Some i \<Longrightarrow> CHR ''$'' \<notin> set v \<Longrightarrow>
     replaceString str pat v = take i str @ v @ drop (i + length pat) str"
  by (simp add: replaceString_def GetSubstitution_no_dollar)

lemma blockIDIndex_appended:
  "ident \<noteq> [] \<Longrightarrow> list_all isBlockIDChar ident \<Longrightarrow>
     blockIDIndex prev (xs @ CHR '' '' # CHR ''^'' # ident) \<noteq> None"
  by (induction xs arbitrary: prev) (auto simp: isWhiteSpace_def)

subsection \<open>genID\<close>

lemma genID_while_spec:
  "genID_while rnd len (ident, k) = (ident', k') \<Longrightarrow> length ident \<le> len \<Longrightarrow>
     length ident' = len \<and> k' = k + (len - length ident)
     \<and> set ident' \<subseteq> set ident \<union> set characters"
proof (induction rnd len "(ident, k)" arbitrary: ident k rule: genID_while.induct)
  case (1 rnd len ident k)
  show ?case
  proof (cases "length ident < len")
    case True
    let ?c = "characters ! (rnd k mod length characters)"
    from True "1.prems" have run: "genID_while rnd len (ident @ [?c], Suc k) = (ident', k')"
      by simp
    have mem: "?c \<in> set characters"
      by (rule nth_mem) (simp add: characters_def)
    from "1.hyps"[OF True run] True mem show ?thesis by auto
  next
    case False
    with "1.prems" show ?thesis by auto
  qed
qed

lemma genID_spec:
  assumes "genID rnd len k = (ident, k')"
  shows "length ident = len \<and> k' = k + len \<and> set ident \<subseteq> set characters"
proof -
  obtain i0 k0 where w: "genID_while rnd len ([], k) = (i0, k0)"
    by (cases "genID_while rnd len ([], k)")
  from genID_while_spec[OF w]
  have p: "length i0 = len" "k0 = k + len" "set i0 \<subseteq> set characters" by auto
  from assms w p(1) have "ident = i0" "k' = k0" by (auto simp: genID_def slice_def)
  with p show ?thesis by simp
qed

lemma characters_alphabet: "list_all isTokenChar characters"
  by (simp add: characters_def isTokenChar_def)

lemma characters_blockID_all: "list_all isBlockIDChar characters"
  by (simp add: characters_def isBlockIDChar_def)

lemma characters_blockID: "c \<in> set characters \<Longrightarrow> isBlockIDChar c"
  using characters_blockID_all[unfolded list_all_iff] by blast

lemma characters_no_dollar: "CHR ''$'' \<notin> set characters"
  by (simp add: characters_def)

lemma initialCopiedLine_cases:
  "initialCopiedLine settings editor lineNumber
     = (if sliceApplies editor lineNumber
        then slice (getLine editor lineNumber)
               (if lineNumber = minLine editor then int (ch (cursorFrom editor)) else 0)
               (if lineNumber = maxLine editor then int (ch (cursorTo editor))
                else int (length (getLine editor lineNumber)) - 1)
        else if stripApplies settings editor lineNumber
        then dropWhile isWhiteSpace (getLine editor lineNumber)
        else getLine editor lineNumber)"
  by (auto simp: initialCopiedLine_def Let_def replace_leading)

section \<open>Facts about the loop\<close>

lemma matchText_appended:
  assumes "length ident = 5" and "set ident \<subseteq> set characters"
  shows "matchText (xs @ CHR '' '' # CHR ''^'' # ident) blockIDRegex \<noteq> None"
proof -
  from assms have "ident \<noteq> []" "list_all isBlockIDChar ident"
    by (auto simp: list_all_iff characters_blockID)
  from blockIDIndex_appended[OF this, of None xs] show ?thesis
    by (auto simp: matchText_def blockIDRegex_def)
qed

lemma not_blank_appended: "\<not> list_all isWhiteSpace (xs @ CHR '' '' # CHR ''^'' # ident)"
  by (simp add: isWhiteSpace_def)

text \<open>What one pass of the loop body in SeparateLines mode does to the full line.\<close>

lemma loopBody_separate_line:
  assumes "loopBody host editor settings SeparateLines mode n st = Inr st'"
  shows "\<exists>l'. updatedLines st' = updatedLines st @ [l']
           \<and> (blankShortcut editor n \<and> l' = getLine editor n
               \<or> \<not> blankShortcut editor n
                  \<and> (\<exists>t. activeLinkText host editor settings mode = Inr t)
                  \<and> (\<exists>rx. newRegExp host (lineFormatFrom settings) = Inr rx)
                  \<and> matchText l' blockIDRegex \<noteq> None
                  \<and> (l' = getLine editor n \<or> l' \<noteq> getLine editor n \<and> \<not> list_all isWhiteSpace l'))"
proof (cases "blankShortcut editor n")
  case True
  with assms show ?thesis by (auto simp: loopBody_def)
next
  case False
  obtain t where lt: "activeLinkText host editor settings mode = Inr t"
    using False assms by (cases "activeLinkText host editor settings mode") (simp_all add: loopBody_def)
  obtain rx where rx: "newRegExp host (lineFormatFrom settings) = Inr rx"
    using False assms lt
    by (cases "newRegExp host (lineFormatFrom settings)")
       (auto simp: loopBody_def isLinkUnit_def linkUnit_def Let_def split: option.splits prod.splits)
  show ?thesis
  proof (cases "matchText (getLine editor n) blockIDRegex")
    case (Some b)
    with False assms lt rx show ?thesis
      by (auto simp: loopBody_def isLinkUnit_def linkUnit_def Let_def)
  next
    case None
    obtain ident k' where g: "genID (random host) 5 (draws st) = (ident, k')"
      by (cases "genID (random host) 5 (draws st)")
    from genID_spec[OF g] have len: "length ident = 5" and sub: "set ident \<subseteq> set characters"
      by auto
    have nd: "CHR ''$'' \<notin> set (CHR '' '' # CHR ''^'' # ident)"
      using sub characters_no_dollar by auto
    let ?l = "take (trailingSpaceIndex (getLine editor n)) (getLine editor n)
                @ CHR '' '' # CHR ''^'' # ident"
    have up: "updatedLines st' = updatedLines st @ [?l]"
      using False assms lt rx None g replace_trailing[OF nd, of "getLine editor n"]
      by (auto simp: loopBody_def isLinkUnit_def linkUnit_def Let_def)
    have "matchText ?l blockIDRegex \<noteq> None" by (rule matchText_appended[OF len sub])
    moreover have "\<not> list_all isWhiteSpace ?l" by (rule not_blank_appended)
    ultimately show ?thesis using up False lt rx by blast
  qed
qed


lemma loopBody_rerun:
  assumes mm: "minLine e2 = minLine editor" "maxLine e2 = maxLine editor"
    and hh: "newRegExp h2 = newRegExp host" "readText h2 = readText host"
    and l': "getLine e2 n = l'"
    and first: "blankShortcut editor n \<and> l' = getLine editor n
               \<or> \<not> blankShortcut editor n
                  \<and> (\<exists>t. activeLinkText host editor settings mode = Inr t)
                  \<and> (\<exists>rx. newRegExp host (lineFormatFrom settings) = Inr rx)
                  \<and> matchText l' blockIDRegex \<noteq> None
                  \<and> (l' = getLine editor n \<or> l' \<noteq> getLine editor n \<and> \<not> list_all isWhiteSpace l')"
  shows "\<exists>st2'. loopBody h2 e2 settings SeparateLines mode n st2 = Inr st2'
           \<and> updatedLines st2' = updatedLines st2 @ [l']
           \<and> draws st2' = draws st2 \<and> newID st2' = newID st2"
proof (cases "blankShortcut editor n")
  case True
  with first have "l' = getLine editor n" by blast
  with True mm l' have "blankShortcut e2 n"
    by (simp add: blankShortcut_def)
  with l' show ?thesis by (simp add: loopBody_def)
next
  case False
  with first obtain t rx b where
    t: "activeLinkText host editor settings mode = Inr t"
    and rx: "newRegExp host (lineFormatFrom settings) = Inr rx"
    and b: "matchText l' blockIDRegex = Some b"
    and nbl: "l' = getLine editor n \<or> \<not> list_all isWhiteSpace l'"
    by blast
  have nb2: "\<not> blankShortcut e2 n"
    using False nbl mm l' by (auto simp: blankShortcut_def matchText_def blankRegex_def)
  obtain t2 where t2: "activeLinkText h2 e2 settings mode = Inr t2"
    using t hh
    by (cases "readText host") (auto simp: activeLinkText_def Let_def split: if_splits)
  from nb2 t2 rx b hh l' show ?thesis
    by (simp add: loopBody_def isLinkUnit_def linkUnit_def Let_def)
qed

lemma loopBody_appends_one:
  "loopBody host editor settings copy mode n st = Inr st'
     \<Longrightarrow> \<exists>l. updatedLines st' = updatedLines st @ [l]"
  by (auto simp: loopBody_def Let_def split: if_splits sum.splits prod.splits)

lemma copyForwardLoop_prefix:
  "copyForwardLoop host editor settings copy mode n st = Inr st1
     \<Longrightarrow> \<exists>ls. updatedLines st1 = updatedLines st @ ls"
proof (induction host editor settings copy mode n st rule: copyForwardLoop.induct)
  case (1 host editor settings copy mode lineNumber st)
  show ?case
  proof (cases "lineNumber \<le> maxLine editor")
    case False
    with "1.prems" show ?thesis by simp
  next
    case True
    with "1.prems" obtain st' where
      b: "loopBody host editor settings copy mode lineNumber st = Inr st'"
      and r: "copyForwardLoop host editor settings copy mode (Suc lineNumber) st' = Inr st1"
      by (cases "loopBody host editor settings copy mode lineNumber st") simp_all
    from "1.IH"[OF True b r] loopBody_appends_one[OF b] show ?thesis by auto
  qed
qed


lemma copyForwardLoop_rerun:
  assumes "copyForwardLoop host editor settings copy mode n st = Inr st1"
    and "copy = SeparateLines"
    and "minLine e2 = minLine editor" and "maxLine e2 = maxLine editor"
    and "newRegExp h2 = newRegExp host" and "readText h2 = readText host"
    and "\<forall>j. n \<le> j \<and> j \<le> maxLine editor
            \<longrightarrow> getLine e2 j = updatedLines st1 ! (length (updatedLines st) + (j - n))"
  shows "\<exists>st2'. copyForwardLoop h2 e2 settings SeparateLines mode n st2 = Inr st2'
           \<and> updatedLines st2' = updatedLines st2 @ drop (length (updatedLines st)) (updatedLines st1)
           \<and> draws st2' = draws st2 \<and> newID st2' = newID st2"
  using assms
proof (induction host editor settings copy mode n st arbitrary: st2
        rule: copyForwardLoop.induct)
  case (1 host editor settings copy mode lineNumber st)
  note sep = \<open>copy = SeparateLines\<close>
  show ?case
  proof (cases "lineNumber \<le> maxLine editor")
    case False
    with "1.prems"(1) have "st1 = st" by simp
    with False "1.prems"(4) show ?thesis by simp
  next
    case True
    with "1.prems"(1) obtain st' where
      b: "loopBody host editor settings copy mode lineNumber st = Inr st'"
      and r: "copyForwardLoop host editor settings copy mode (Suc lineNumber) st' = Inr st1"
      by (cases "loopBody host editor settings copy mode lineNumber st") simp_all
    from loopBody_separate_line[OF b[unfolded sep]] obtain l' where
      up: "updatedLines st' = updatedLines st @ [l']"
      and first: "blankShortcut editor lineNumber \<and> l' = getLine editor lineNumber
               \<or> \<not> blankShortcut editor lineNumber
                  \<and> (\<exists>t. activeLinkText host editor settings mode = Inr t)
                  \<and> (\<exists>rx. newRegExp host (lineFormatFrom settings) = Inr rx)
                  \<and> matchText l' blockIDRegex \<noteq> None
                  \<and> (l' = getLine editor lineNumber
                      \<or> l' \<noteq> getLine editor lineNumber \<and> \<not> list_all isWhiteSpace l')"
      by blast
    from copyForwardLoop_prefix[OF r] up obtain ls where
      u: "updatedLines st1 = updatedLines st @ l' # ls" by auto
    from "1.prems"(7) True have g: "getLine e2 lineNumber = l'"
      using u by (auto simp: nth_append)
    from loopBody_rerun[OF "1.prems"(3,4,5,6) g first, of st2] obtain st2a where
      b2: "loopBody h2 e2 settings SeparateLines mode lineNumber st2 = Inr st2a"
      and u2: "updatedLines st2a = updatedLines st2 @ [l']"
      and d2: "draws st2a = draws st2" and n2: "newID st2a = newID st2"
      by blast
    have al: "\<forall>j. Suc lineNumber \<le> j \<and> j \<le> maxLine editor
                \<longrightarrow> getLine e2 j = updatedLines st1 ! (length (updatedLines st') + (j - Suc lineNumber))"
    proof (intro allI impI)
      fix j assume j: "Suc lineNumber \<le> j \<and> j \<le> maxLine editor"
      then have "j - lineNumber = Suc (j - Suc lineNumber)" by arith
      then have "length (updatedLines st') + (j - Suc lineNumber)
                   = length (updatedLines st) + (j - lineNumber)"
        using up by simp
      with "1.prems"(7) j show
        "getLine e2 j = updatedLines st1 ! (length (updatedLines st') + (j - Suc lineNumber))"
        by simp
    qed
    from "1.IH"[OF True b r sep "1.prems"(3,4,5,6) al, of st2a] obtain st2' where
      r2: "copyForwardLoop h2 e2 settings SeparateLines mode (Suc lineNumber) st2a = Inr st2'"
      and u3: "updatedLines st2' = updatedLines st2a @ drop (length (updatedLines st')) (updatedLines st1)"
      and d3: "draws st2' = draws st2a" and n3: "newID st2' = newID st2a"
      by blast
    have "copyForwardLoop h2 e2 settings SeparateLines mode lineNumber st2 = Inr st2'"
      using True "1.prems"(4) b2 r2 by simp
    moreover have "updatedLines st2' = updatedLines st2 @ drop (length (updatedLines st)) (updatedLines st1)"
      using u3 u2 up u by simp
    ultimately show ?thesis using d2 d3 n2 n3 by simp
  qed
qed

lemma copyForwardLoop_separate_anchored:
  assumes "copyForwardLoop host editor settings copy mode n st = Inr st1"
    and "copy = SeparateLines"
    and "list_all (\<lambda>l. list_all isWhiteSpace l \<or> matchText l blockIDRegex \<noteq> None) (updatedLines st)"
  shows "list_all (\<lambda>l. list_all isWhiteSpace l \<or> matchText l blockIDRegex \<noteq> None) (updatedLines st1)"
  using assms
proof (induction host editor settings copy mode n st rule: copyForwardLoop.induct)
  case (1 host editor settings copy mode lineNumber st)
  note sep = \<open>copy = SeparateLines\<close>
  show ?case
  proof (cases "lineNumber \<le> maxLine editor")
    case False
    with "1.prems" show ?thesis by simp
  next
    case True
    with "1.prems"(1) obtain st' where
      b: "loopBody host editor settings copy mode lineNumber st = Inr st'"
      and r: "copyForwardLoop host editor settings copy mode (Suc lineNumber) st' = Inr st1"
      by (cases "loopBody host editor settings copy mode lineNumber st") simp_all
    from loopBody_separate_line[OF b[unfolded sep]] obtain l' where
      up: "updatedLines st' = updatedLines st @ [l']"
      and first: "blankShortcut editor lineNumber \<and> l' = getLine editor lineNumber
               \<or> matchText l' blockIDRegex \<noteq> None"
      by blast
    have "list_all isWhiteSpace l' \<or> matchText l' blockIDRegex \<noteq> None"
      using first by (auto simp: blankShortcut_def matchText_def blankRegex_def split: if_splits)
    with up "1.prems"(3)
    have "list_all (\<lambda>l. list_all isWhiteSpace l \<or> matchText l blockIDRegex \<noteq> None) (updatedLines st')"
      by simp
    from "1.IH"[OF True b r sep this] show ?thesis .
  qed
qed

section \<open>The claims\<close>

text \<open>
  C1. The spec reads the anchor pattern as: the token \<open>^\<close> plus letters, digits or
  hyphens at the end of the line is an existing anchor exactly when the \<open>^\<close> is preceded
  by white space or stands at the start of the line, so that a line that is only such a
  token is already anchored. The lookbehind of \<open>blockIDRegex\<close> is the class \<open>[\s^]\<close>,
  which needs a character before the token, a white space or a literal \<open>^\<close>. Here the
  code is run on the one-line document \<open>^abc123\<close> with a caret on it: the token at the
  start of the line is not found and a second anchor is appended. A token after a
  literal \<open>^\<close> in the middle of a word is found.
\<close>

theorem C1_anchor_at_line_start_not_found:
  "matchText ''^abc123'' blockIDRegex = None
   \<and> matchText ''x^^abc'' blockIDRegex = Some ''^abc''
   \<and> copyForwardLines exampleHost (editorOf [''^abc123''] (0, 0) (0, 0) [])
         DEFAULT_SETTINGS SeparateLines LinkTextFromSettings
       = \<lparr>effects =
            [ClipboardWriteText ''^abc123 (see [[note#^abcde]])'',
             EditorTransact
               \<lparr>changes =
                  [\<lparr>changeFrom = \<lparr>line = 0, ch = 0\<rparr>, changeTo = \<lparr>line = 0, ch = 7\<rparr>,
                    changeText = ''^abc123 ^abcde''\<rparr>],
                selection = Some (\<lparr>line = 0, ch = 0\<rparr>, \<lparr>line = 0, ch = 0\<rparr>)\<rparr>,
             Notice ''Copied'' None],
          rejected = None\<rparr>"
  by code_simp

text \<open>
  C2. The spec says that on the first line of a selection of several lines the copied
  line runs from the start column through the end of that line. The code slices the
  first line to \<open>line.length - 1\<close>, which leaves the last character out. Here the
  selection is the whole of the two lines \<open>hello\<close> and \<open>world\<close>: the first copied line
  starts as \<open>hell\<close>, and so it reaches the clipboard.
\<close>

theorem C2_first_line_loses_last_character:
  "initialCopiedLine DEFAULT_SETTINGS
       (editorOf [''hello'', ''world''] (0, 0) (1, 5) (''hello'' @ [CHR 0x0A] @ ''world'')) 0
     = ''hell''
   \<and> copyForwardLoop exampleHost
         (editorOf [''hello'', ''world''] (0, 0) (1, 5) (''hello'' @ [CHR 0x0A] @ ''world''))
         DEFAULT_SETTINGS SeparateLines LinkTextFromSettings 0 initialState
       = Inr \<lparr>updatedLines = [''hello ^abcde'', ''world ^fghij''],
              copiedLines = [''hell (see [[note#^abcde]])'', ''world (see [[note#^fghij]])''],
              newID = ''^fghij'', draws = 10\<rparr>"
  by code_simp

text \<open>
  C3. A first run in SeparateLines mode that completes rewrites the selected lines. A
  second run in the same mode over the editor that holds the rewritten lines, whatever
  its random draws and the text of its selection, completes too, makes no draw, leaves
  \<open>newID\<close> empty, and produces the same rewritten lines again. Every rewritten line of
  the first run is white space only or ends in an anchor that \<open>blockIDRegex\<close> finds, the
  anchors appended by the first run among them. Nothing is asked of the lines before the
  first run, so this holds in particular when they had no anchor.
\<close>

theorem C3_second_run_reuses_anchors:
  assumes run1: "copyForwardLoop host editor settings SeparateLines mode (minLine editor)
                   initialState = Inr st1"
  shows "\<exists>st2. copyForwardLoop (host\<lparr>random := random2\<rparr>)
                  (rewritten editor (updatedLines st1) sel2) settings SeparateLines mode
                  (minLine (rewritten editor (updatedLines st1) sel2)) initialState = Inr st2
           \<and> updatedLines st2 = updatedLines st1
           \<and> draws st2 = 0 \<and> newID st2 = []
           \<and> list_all (\<lambda>l. list_all isWhiteSpace l \<or> matchText l blockIDRegex \<noteq> None)
                (updatedLines st1)"
proof -
  let ?e2 = "rewritten editor (updatedLines st1) sel2"
  let ?h2 = "host\<lparr>random := random2\<rparr>"
  have mm: "minLine ?e2 = minLine editor" "maxLine ?e2 = maxLine editor"
    by (simp_all add: rewritten_def minLine_def maxLine_def)
  have hh: "newRegExp ?h2 = newRegExp host" "readText ?h2 = readText host"
    by simp_all
  have al: "\<forall>j. minLine editor \<le> j \<and> j \<le> maxLine editor
              \<longrightarrow> getLine ?e2 j
                  = updatedLines st1 ! (length (updatedLines initialState) + (j - minLine editor))"
    by (simp add: rewritten_def initialState_def)
  from copyForwardLoop_rerun[OF run1 refl mm hh al, where ?st2.0 = initialState]
  obtain st2 where
    "copyForwardLoop ?h2 ?e2 settings SeparateLines mode (minLine editor) initialState = Inr st2"
    "updatedLines st2 = updatedLines st1" "draws st2 = 0" "newID st2 = []"
    by (auto simp: initialState_def)
  moreover have "list_all (\<lambda>l. list_all isWhiteSpace l \<or> matchText l blockIDRegex \<noteq> None)
                   (updatedLines st1)"
    by (rule copyForwardLoop_separate_anchored[OF run1 refl]) (simp add: initialState_def)
  ultimately show ?thesis using mm by auto
qed

theorem C3_second_run_reuses_anchors_witness:
  "copyForwardLoop exampleHost
       (editorOf [''hello'', [], ''world''] (0, 0) (2, 5) (''hello'' @ [CHR 0x0A, CHR 0x0A] @ ''world''))
       DEFAULT_SETTINGS SeparateLines LinkTextFromSettings
       (minLine (editorOf [''hello'', [], ''world''] (0, 0) (2, 5)
                   (''hello'' @ [CHR 0x0A, CHR 0x0A] @ ''world'')))
       initialState
     = Inr \<lparr>updatedLines = [''hello ^abcde'', [], ''world ^fghij''],
            copiedLines = [''hell (see [[note#^abcde]])'', [], ''world (see [[note#^fghij]])''],
            newID = ''^fghij'', draws = 10\<rparr>
   \<and> copyForwardLoop (exampleHost\<lparr>random := (\<lambda>k. 7)\<rparr>)
       (editorOf [''hello ^abcde'', [], ''world ^fghij''] (0, 0) (2, 5)
          (''hello ^abcde'' @ [CHR 0x0A, CHR 0x0A] @ ''world''))
       DEFAULT_SETTINGS SeparateLines LinkTextFromSettings 0 initialState
     = Inr \<lparr>updatedLines = [''hello ^abcde'', [], ''world ^fghij''],
            copiedLines = [''hello (see [[note#^abcde]])'', [], ''world (see [[note#^fghij]])''],
            newID = [], draws = 0\<rparr>
   \<and> (\<exists>st2. copyForwardLoop (exampleHost\<lparr>random := (\<lambda>k. 7)\<rparr>)
         (rewritten
            (editorOf [''hello'', [], ''world''] (0, 0) (2, 5)
               (''hello'' @ [CHR 0x0A, CHR 0x0A] @ ''world''))
            [''hello ^abcde'', [], ''world ^fghij'']
            (''hello ^abcde'' @ [CHR 0x0A, CHR 0x0A] @ ''world''))
         DEFAULT_SETTINGS SeparateLines LinkTextFromSettings 0 initialState = Inr st2
        \<and> updatedLines st2 = [''hello ^abcde'', [], ''world ^fghij'']
        \<and> draws st2 = 0)"
proof -
  let ?e = "editorOf [''hello'', [], ''world''] (0, 0) (2, 5)
              (''hello'' @ [CHR 0x0A, CHR 0x0A] @ ''world'')"
  let ?st1 = "\<lparr>updatedLines = [''hello ^abcde'', [], ''world ^fghij''],
            copiedLines = [''hell (see [[note#^abcde]])'', [], ''world (see [[note#^fghij]])''],
            newID = ''^fghij'', draws = 10\<rparr>"
  have run1: "copyForwardLoop exampleHost ?e DEFAULT_SETTINGS SeparateLines LinkTextFromSettings
                (minLine ?e) initialState = Inr ?st1"
    by code_simp
  have run2: "copyForwardLoop (exampleHost\<lparr>random := (\<lambda>k. 7)\<rparr>)
       (editorOf [''hello ^abcde'', [], ''world ^fghij''] (0, 0) (2, 5)
          (''hello ^abcde'' @ [CHR 0x0A, CHR 0x0A] @ ''world''))
       DEFAULT_SETTINGS SeparateLines LinkTextFromSettings 0 initialState
     = Inr \<lparr>updatedLines = [''hello ^abcde'', [], ''world ^fghij''],
            copiedLines = [''hello (see [[note#^abcde]])'', [], ''world (see [[note#^fghij]])''],
            newID = [], draws = 0\<rparr>"
    by code_simp
  have m: "minLine (rewritten ?e (updatedLines ?st1)
                      (''hello ^abcde'' @ [CHR 0x0A, CHR 0x0A] @ ''world'')) = 0"
    by (simp add: rewritten_def minLine_def editorOf_def)
  from C3_second_run_reuses_anchors[OF run1, of "\<lambda>k. 7"
         "''hello ^abcde'' @ [CHR 0x0A, CHR 0x0A] @ ''world''"]
  have "\<exists>st2. copyForwardLoop (exampleHost\<lparr>random := (\<lambda>k. 7)\<rparr>)
         (rewritten ?e [''hello ^abcde'', [], ''world ^fghij'']
            (''hello ^abcde'' @ [CHR 0x0A, CHR 0x0A] @ ''world''))
         DEFAULT_SETTINGS SeparateLines LinkTextFromSettings 0 initialState = Inr st2
        \<and> updatedLines st2 = [''hello ^abcde'', [], ''world ^fghij'']
        \<and> draws st2 = 0"
    unfolding m by auto
  with run1 run2 show ?thesis by blast
qed

text \<open>
  C4. When the "From" pattern does not compile, the transform changes nothing in the
  document and writes nothing to the clipboard: its only effect is the warning, shown
  for 30 seconds, that names the pattern and the error of the compiler. The check is the
  first statement of \<open>copyForwardLines\<close>, so it holds for every copy mode, link-text
  mode, editor and selection. What is compiled for the check is \<open>updatedRegexString\<close>
  of the setting (the setting itself when it has no backslash-n, -t or -r).
\<close>

theorem C4_invalid_from_only_warns:
  assumes "newRegExp host (updatedRegexString (lineFormatFrom settings)) = Inl e"
  shows "copyForwardLines host editor settings copy mode
           = \<lparr>effects =
                [Notice (''Error: '' @ [CHR 0x27] @ ''From'' @ [CHR 0x27] @ '' setting is invalid:''
                           @ [CHR 0x0A, CHR 0x0A]
                           @ [CHR 0x22] @ updatedRegexString (lineFormatFrom settings) @ [CHR 0x22]
                           @ '': '' @ [CHR 0x22] @ e @ [CHR 0x22]
                           @ [CHR 0x0A, CHR 0x0A]
                           @ ''Please update the Carry-Forward settings and try again.'')
                        (Some 30000)],
              rejected = None\<rparr>"
  using assms by (simp add: copyForwardLines_def validateRegex_def invalidFromNotice_def)

theorem C4_invalid_from_only_warns_witness:
  "newRegExp exampleHost (updatedRegexString (lineFormatFrom (DEFAULT_SETTINGS\<lparr>lineFormatFrom := ''(''\<rparr>)))
     = Inl ''SyntaxError: Invalid regular expression: /(/u: Unterminated group''
   \<and> effects (copyForwardLines exampleHost (editorOf [''hello''] (0, 0) (0, 0) [])
                (DEFAULT_SETTINGS\<lparr>lineFormatFrom := ''(''\<rparr>) SeparateLines LinkTextFromSettings)
       = [Notice (''Error: '' @ [CHR 0x27] @ ''From'' @ [CHR 0x27] @ '' setting is invalid:''
                    @ [CHR 0x0A, CHR 0x0A] @ [CHR 0x22] @ ''('' @ [CHR 0x22] @ '': '' @ [CHR 0x22]
                    @ ''SyntaxError: Invalid regular expression: /(/u: Unterminated group''
                    @ [CHR 0x22] @ [CHR 0x0A, CHR 0x0A]
                    @ ''Please update the Carry-Forward settings and try again.'')
                 (Some 30000)]"
proof -
  have h: "newRegExp exampleHost
             (updatedRegexString (lineFormatFrom (DEFAULT_SETTINGS\<lparr>lineFormatFrom := ''(''\<rparr>)))
           = Inl ''SyntaxError: Invalid regular expression: /(/u: Unterminated group''"
    by (simp add: exampleHost_def updatedRegexString_def)
  have u: "updatedRegexString (lineFormatFrom (DEFAULT_SETTINGS\<lparr>lineFormatFrom := ''(''\<rparr>)) = ''(''"
    by (simp add: updatedRegexString_def)
  from C4_invalid_from_only_warns[OF h] u h show ?thesis by simp
qed

text \<open>
  C5. The spec says that in LinkOnly and LinkOnlyEmbed mode only the first selected line
  reaches the copied output, so that a selection of 3 lines gives one copied line. The
  branch of the blank-line shortcut pushes its copied line before the gate that keeps
  later lines out is reached. Here the code is run in LinkOnly mode on the three lines
  \<open>a\<close>, empty, \<open>b\<close>: the copied lines are two, the link and the empty line, and the
  clipboard text ends with a line break. When the first of two lines is empty, the shortcut
  takes it: no line gets an anchor and the only copied line is empty.
\<close>

theorem C5_blank_line_reaches_link_only_copy:
  "copyForwardLoop exampleHost
       (editorOf [''a'', [], ''b''] (0, 0) (2, 1) (''a'' @ [CHR 0x0A, CHR 0x0A] @ ''b''))
       DEFAULT_SETTINGS LinkOnly LinkTextFromSettings 0 initialState
     = Inr \<lparr>updatedLines = [''a ^abcde'', [], ''b''],
            copiedLines = [''(see [[note#^abcde]])'', []],
            newID = ''^abcde'', draws = 5\<rparr>
   \<and> effects (copyForwardLines exampleHost
         (editorOf [''a'', [], ''b''] (0, 0) (2, 1) (''a'' @ [CHR 0x0A, CHR 0x0A] @ ''b''))
         DEFAULT_SETTINGS LinkOnly LinkTextFromSettings) ! 0
       = ClipboardWriteText (''(see [[note#^abcde]])'' @ [CHR 0x0A])
   \<and> copyForwardLoop exampleHost
         (editorOf [[], ''b''] (0, 0) (1, 1) ([CHR 0x0A] @ ''b''))
         DEFAULT_SETTINGS LinkOnly LinkTextFromSettings 0 initialState
       = Inr \<lparr>updatedLines = [[], ''b''], copiedLines = [[]], newID = [], draws = 0\<rparr>"
  by code_simp

text \<open>
  C6, as stated, at a selection that is not collapsed but lies within one line. The
  claim lets the shortcut apply whenever the selection is not a single-line caret. The
  line is two spaces and the selection covers its first column: the line is white space
  only and the selection is not collapsed, yet the line is not passed through; it gets
  an anchor and its copy gets the link.
\<close>

theorem C6_counterexample_single_line_selection:
  "list_all isWhiteSpace (getLine (editorOf [''  ''] (0, 0) (0, 1) '' '') 0)
   \<and> ch (cursorFrom (editorOf [''  ''] (0, 0) (0, 1) '' ''))
        \<noteq> ch (cursorTo (editorOf [''  ''] (0, 0) (0, 1) '' ''))
   \<and> loopBody exampleHost (editorOf [''  ''] (0, 0) (0, 1) '' '') DEFAULT_SETTINGS
         SeparateLines LinkTextFromSettings 0 initialState
       = Inr \<lparr>updatedLines = ['' ^abcde''], copiedLines = ['' (see [[note#^abcde]])''],
              newID = ''^abcde'', draws = 5\<rparr>"
  by code_simp

text \<open>
  C6, amended. The shortcut is guarded by \<open>!(lineNumber === minLine && minLine === maxLine)\<close>:
  it applies when the selection spans more than one line. Then every line that is empty
  or white space only passes through: the loop body completes, the full line is pushed
  to the rewritten lines unchanged, with no anchor, no link, no substitution and no
  draw, in every copy mode and link-text mode; in SeparateLines and CombinedLines mode
  the computed copied line is pushed to the copied lines unchanged. Nothing is stated
  here about the copied lines in LinkOnly and LinkOnlyEmbed mode.
\<close>

theorem C6_blank_line_shortcut:
  assumes "list_all isWhiteSpace (getLine editor lineNumber)"
    and "minLine editor \<noteq> maxLine editor"
  shows "\<exists>st'. loopBody host editor settings copy mode lineNumber st = Inr st'
           \<and> updatedLines st' = updatedLines st @ [getLine editor lineNumber]
           \<and> newID st' = newID st \<and> draws st' = draws st
           \<and> (copy = SeparateLines \<or> copy = CombinedLines
                \<longrightarrow> copiedLines st'
                    = copiedLines st @ [initialCopiedLine settings editor lineNumber])"
  using assms by (simp add: loopBody_def blankShortcut_def matchText_def blankRegex_def)

theorem C6_blank_line_shortcut_witness:
  "list_all isWhiteSpace (getLine (editorOf [''a'', ''  '', ''b''] (0, 0) (2, 1) []) 1)
   \<and> minLine (editorOf [''a'', ''  '', ''b''] (0, 0) (2, 1) [])
        \<noteq> maxLine (editorOf [''a'', ''  '', ''b''] (0, 0) (2, 1) [])
   \<and> (\<exists>st'. loopBody exampleHost (editorOf [''a'', ''  '', ''b''] (0, 0) (2, 1) [])
               DEFAULT_SETTINGS SeparateLines LinkTextFromSettings 1
               \<lparr>updatedLines = [''a ^abcde''], copiedLines = ['' (see [[note#^abcde]])''],
                newID = ''^abcde'', draws = 5\<rparr> = Inr st'
          \<and> updatedLines st' = [''a ^abcde'', ''  '']
          \<and> newID st' = ''^abcde'' \<and> draws st' = 5
          \<and> copiedLines st' = ['' (see [[note#^abcde]])'', ''  ''])"
proof -
  let ?e = "editorOf [''a'', ''  '', ''b''] (0, 0) (2, 1) []"
  let ?st = "\<lparr>updatedLines = [''a ^abcde''], copiedLines = ['' (see [[note#^abcde]])''],
                newID = ''^abcde'', draws = 5\<rparr>"
  have b: "list_all isWhiteSpace (getLine ?e 1)" by code_simp
  have m: "minLine ?e \<noteq> maxLine ?e" by code_simp
  have i: "initialCopiedLine DEFAULT_SETTINGS ?e 1 = ''  ''" by code_simp
  have g: "getLine ?e 1 = ''  ''" by code_simp
  from C6_blank_line_shortcut[OF b m, where host = exampleHost and settings = DEFAULT_SETTINGS
      and copy = SeparateLines and mode = LinkTextFromSettings and st = ?st]
  obtain st' where
    "loopBody exampleHost ?e DEFAULT_SETTINGS SeparateLines LinkTextFromSettings 1 ?st = Inr st'"
    "updatedLines st' = updatedLines ?st @ [getLine ?e 1]"
    "newID st' = newID ?st" "draws st' = draws ?st"
    "copiedLines st' = copiedLines ?st @ [initialCopiedLine DEFAULT_SETTINGS ?e 1]"
    by blast
  then have "\<exists>st'. loopBody exampleHost ?e DEFAULT_SETTINGS SeparateLines LinkTextFromSettings 1 ?st
                  = Inr st'
          \<and> updatedLines st' = [''a ^abcde'', ''  '']
          \<and> newID st' = ''^abcde'' \<and> draws st' = 5
          \<and> copiedLines st' = ['' (see [[note#^abcde]])'', ''  '']"
    using i g by auto
  with b m show ?thesis by blast
qed

text \<open>
  C7. On no line do the strip of leading white space and the column slice both take
  effect. The strip changes the copied line, compared with the same settings with
  \<open>removeLeadingWhitespace\<close> off, only when the selection is collapsed (one line,
  equal columns), on a line where the slice does not apply; the copied line is then the
  full line without its leading white space. Where the slice applies, the selection is
  not a single collapsed point, the copied line is the slice of the full line, and it
  is the same with the strip on or off: the slice is taken from \<open>line\<close>, so a strip
  whose condition also holds there (first line of several, equal columns) is discarded.
\<close>

theorem C7_strip_and_slice_never_both:
  "(initialCopiedLine settings editor lineNumber
      \<noteq> initialCopiedLine (settings\<lparr>removeLeadingWhitespace := False\<rparr>) editor lineNumber
     \<longrightarrow> minLine editor = maxLine editor \<and> ch (cursorFrom editor) = ch (cursorTo editor)
         \<and> \<not> sliceApplies editor lineNumber
         \<and> initialCopiedLine settings editor lineNumber
             = dropWhile isWhiteSpace (getLine editor lineNumber))
   \<and> (sliceApplies editor lineNumber
     \<longrightarrow> \<not> (minLine editor = maxLine editor \<and> ch (cursorFrom editor) = ch (cursorTo editor))
         \<and> initialCopiedLine settings editor lineNumber
             = initialCopiedLine (settings\<lparr>removeLeadingWhitespace := False\<rparr>) editor lineNumber
         \<and> initialCopiedLine settings editor lineNumber
             = slice (getLine editor lineNumber)
                 (if lineNumber = minLine editor then int (ch (cursorFrom editor)) else 0)
                 (if lineNumber = maxLine editor then int (ch (cursorTo editor))
                  else int (length (getLine editor lineNumber)) - 1))"
  by (auto simp: initialCopiedLine_cases stripApplies_def sliceApplies_def)

theorem C7_strip_and_slice_never_both_witness:
  "initialCopiedLine DEFAULT_SETTINGS (editorOf [''  hello''] (0, 0) (0, 0) []) 0
     \<noteq> initialCopiedLine (DEFAULT_SETTINGS\<lparr>removeLeadingWhitespace := False\<rparr>)
         (editorOf [''  hello''] (0, 0) (0, 0) []) 0
   \<and> \<not> sliceApplies (editorOf [''  hello''] (0, 0) (0, 0) []) 0
   \<and> initialCopiedLine DEFAULT_SETTINGS (editorOf [''  hello''] (0, 0) (0, 0) []) 0 = ''hello''
   \<and> sliceApplies
       (editorOf [''  hello'', ''world''] (0, 3) (1, 3) (''ello'' @ [CHR 0x0A] @ ''wor'')) 0
   \<and> stripApplies DEFAULT_SETTINGS
       (editorOf [''  hello'', ''world''] (0, 3) (1, 3) (''ello'' @ [CHR 0x0A] @ ''wor'')) 0
   \<and> initialCopiedLine DEFAULT_SETTINGS
       (editorOf [''  hello'', ''world''] (0, 3) (1, 3) (''ello'' @ [CHR 0x0A] @ ''wor'')) 0
       = initialCopiedLine (DEFAULT_SETTINGS\<lparr>removeLeadingWhitespace := False\<rparr>)
           (editorOf [''  hello'', ''world''] (0, 3) (1, 3) (''ello'' @ [CHR 0x0A] @ ''wor'')) 0
   \<and> initialCopiedLine DEFAULT_SETTINGS
       (editorOf [''  hello'', ''world''] (0, 3) (1, 3) (''ello'' @ [CHR 0x0A] @ ''wor'')) 0
       = ''ell''"
proof -
  let ?e1 = "editorOf [''  hello''] (0, 0) (0, 0) []"
  let ?e2 = "editorOf [''  hello'', ''world''] (0, 3) (1, 3) (''ello'' @ [CHR 0x0A] @ ''wor'')"
  let ?off = "DEFAULT_SETTINGS\<lparr>removeLeadingWhitespace := False\<rparr>"
  have d: "initialCopiedLine DEFAULT_SETTINGS ?e1 0 \<noteq> initialCopiedLine ?off ?e1 0"
    by code_simp
  have v: "dropWhile isWhiteSpace (getLine ?e1 0) = ''hello''" by code_simp
  have s: "sliceApplies ?e2 0" by code_simp
  have g: "stripApplies DEFAULT_SETTINGS ?e2 0" by code_simp
  have w: "initialCopiedLine ?off ?e2 0 = ''ell''" by code_simp
  from C7_strip_and_slice_never_both[of DEFAULT_SETTINGS ?e1 0] d
  have a: "\<not> sliceApplies ?e1 0" "initialCopiedLine DEFAULT_SETTINGS ?e1 0 = ''hello''"
    using v by simp_all
  from C7_strip_and_slice_never_both[of DEFAULT_SETTINGS ?e2 0] s
  have b: "initialCopiedLine DEFAULT_SETTINGS ?e2 0 = initialCopiedLine ?off ?e2 0"
    by blast
  from d a s g b w show ?thesis by simp
qed

text \<open>
  C8, as stated, in CombinedLines mode on two lines. The claim says the "From" pattern
  and "To" template are applied to every copied line, also to lines that get no anchor
  and link. The second line is copied as it is, \<open>world\<close>, although the pattern matches
  it: applying the substitution would have changed it.
\<close>

theorem C8_counterexample_combined_lines:
  "copyForwardLoop exampleHost
       (editorOf [''hello'', ''world''] (0, 0) (1, 5) (''hello'' @ [CHR 0x0A] @ ''world''))
       DEFAULT_SETTINGS CombinedLines LinkTextFromSettings 0 initialState
     = Inr \<lparr>updatedLines = [''hello ^abcde'', ''world''],
            copiedLines = [''hell (see [[note#^abcde]])'', ''world''],
            newID = ''^abcde'', draws = 5\<rparr>
   \<and> replaceRegExp ''world'' trailingSpaceRegex
         (replaceString (lineFormatTo DEFAULT_SETTINGS) ''{{LINK}}'' ''[[note#^abcde]]'')
       = ''world (see [[note#^abcde]])''"
  by code_simp

text \<open>
  C8, amended. In the line-carry modes the substitution is applied to the copied lines
  of link units only: a line that the blank-line shortcut does not take gets the
  substitution (on its copied line, the anchor at its end removed first when the full
  line has one) if the mode is SeparateLines or the line is the first of the selection;
  every other such line, which is every later line in CombinedLines mode, is copied as
  computed, with no substitution.
\<close>

theorem C8_substitution_on_link_units:
  assumes lc: "copy = SeparateLines \<or> copy = CombinedLines"
    and nb: "\<not> blankShortcut editor lineNumber"
    and run: "loopBody host editor settings copy mode lineNumber st = Inr st'"
  shows "if copy = SeparateLines \<or> lineNumber = minLine editor
         then \<exists>rx linkText'.
                newRegExp host (lineFormatFrom settings) = Inr rx
                \<and> activeLinkText host editor settings mode = Inr linkText'
                \<and> copiedLines st'
                    = copiedLines st
                      @ [case matchText (getLine editor lineNumber) blockIDRegex of
                           None \<Rightarrow>
                             replaceRegExp (initialCopiedLine settings editor lineNumber) rx
                               (replaceString (lineFormatTo settings) ''{{LINK}}''
                                  (generateMarkdownLink host ''/''
                                     (CHR ''#'' # CHR ''^'' # fst (genID (random host) 5 (draws st)))
                                     linkText'))
                         | Some blockID \<Rightarrow>
                             replaceRegExp
                               (replaceRegExp (initialCopiedLine settings editor lineNumber)
                                  blockIDRegex [])
                               rx
                               (replaceString (lineFormatTo settings) ''{{LINK}}''
                                  (generateMarkdownLink host ''/'' (CHR ''#'' # blockID)
                                     linkText'))]
         else copiedLines st' = copiedLines st @ [initialCopiedLine settings editor lineNumber]"
proof -
  obtain linkText' where lt: "activeLinkText host editor settings mode = Inr linkText'"
    using nb run by (cases "activeLinkText host editor settings mode") (simp_all add: loopBody_def)
  show ?thesis
  proof (cases "copy = SeparateLines \<or> lineNumber = minLine editor")
    case False
    with lc nb run lt show ?thesis
      by (auto simp: loopBody_def isLinkUnit_def)
  next
    case True
    obtain r where lu: "linkUnit host settings copy linkText' (getLine editor lineNumber)
                     (initialCopiedLine settings editor lineNumber) (newID st, draws st) = Inr r"
      using nb run lt True
      by (cases "linkUnit host settings copy linkText' (getLine editor lineNumber)
                     (initialCopiedLine settings editor lineNumber) (newID st, draws st)")
         (simp_all add: loopBody_def isLinkUnit_def)
    obtain rx where rx: "newRegExp host (lineFormatFrom settings) = Inr rx"
      using lu lc
      by (cases "newRegExp host (lineFormatFrom settings)")
         (auto simp: linkUnit_def Let_def split: option.splits prod.splits)
    have "fst (snd r)
            = (case matchText (getLine editor lineNumber) blockIDRegex of
                 None \<Rightarrow>
                   replaceRegExp (initialCopiedLine settings editor lineNumber) rx
                     (replaceString (lineFormatTo settings) ''{{LINK}}''
                        (generateMarkdownLink host ''/''
                           (CHR ''#'' # CHR ''^'' # fst (genID (random host) 5 (draws st)))
                           linkText'))
               | Some blockID \<Rightarrow>
                   replaceRegExp
                     (replaceRegExp (initialCopiedLine settings editor lineNumber)
                        blockIDRegex [])
                     rx
                     (replaceString (lineFormatTo settings) ''{{LINK}}''
                        (generateMarkdownLink host ''/'' (CHR ''#'' # blockID) linkText')))"
      using lu lc rx
      by (auto simp: linkUnit_def Let_def split: option.splits prod.splits)
    moreover have "copiedLines st' = copiedLines st @ [fst (snd r)]"
      using nb run lt True lu lc
      by (cases r) (auto simp: loopBody_def isLinkUnit_def)
    ultimately show ?thesis using True rx lt by auto
  qed
qed

theorem C8_substitution_on_link_units_witness:
  "(CombinedLines = SeparateLines \<or> CombinedLines = CombinedLines)
   \<and> \<not> blankShortcut (editorOf [''hello'', ''world''] (0, 0) (1, 5) []) 1
   \<and> loopBody exampleHost (editorOf [''hello'', ''world''] (0, 0) (1, 5) []) DEFAULT_SETTINGS
         CombinedLines LinkTextFromSettings 1
         \<lparr>updatedLines = [''hello ^abcde''], copiedLines = [''hell (see [[note#^abcde]])''],
          newID = ''^abcde'', draws = 5\<rparr>
       = Inr \<lparr>updatedLines = [''hello ^abcde'', ''world''],
              copiedLines = [''hell (see [[note#^abcde]])'', ''world''],
              newID = ''^abcde'', draws = 5\<rparr>
   \<and> copiedLines \<lparr>updatedLines = [''hello ^abcde'', ''world''],
              copiedLines = [''hell (see [[note#^abcde]])'', ''world''],
              newID = ''^abcde'', draws = 5\<rparr>
       = copiedLines \<lparr>updatedLines = [''hello ^abcde''],
              copiedLines = [''hell (see [[note#^abcde]])''], newID = ''^abcde'', draws = 5\<rparr>
         @ [initialCopiedLine DEFAULT_SETTINGS
              (editorOf [''hello'', ''world''] (0, 0) (1, 5) []) 1]"
proof -
  let ?e = "editorOf [''hello'', ''world''] (0, 0) (1, 5) []"
  let ?st = "\<lparr>updatedLines = [''hello ^abcde''], copiedLines = [''hell (see [[note#^abcde]])''],
          newID = ''^abcde'', draws = 5\<rparr>"
  let ?st' = "\<lparr>updatedLines = [''hello ^abcde'', ''world''],
              copiedLines = [''hell (see [[note#^abcde]])'', ''world''],
              newID = ''^abcde'', draws = 5\<rparr>"
  have lc: "CombinedLines = SeparateLines \<or> CombinedLines = CombinedLines" by simp
  have nb: "\<not> blankShortcut ?e 1" by code_simp
  have run: "loopBody exampleHost ?e DEFAULT_SETTINGS CombinedLines LinkTextFromSettings 1 ?st
               = Inr ?st'" by code_simp
  have m: "\<not> (CombinedLines = SeparateLines \<or> (1::nat) = minLine ?e)" by code_simp
  from C8_substitution_on_link_units[OF lc nb run] m
  have "copiedLines ?st' = copiedLines ?st @ [initialCopiedLine DEFAULT_SETTINGS ?e 1]"
    by (simp only: if_False)
  with lc nb run show ?thesis by blast
qed

text \<open>
  C9. On a line without a recognised anchor at its end, the token that \<open>linkUnit\<close>
  generates is \<open>^\<close> followed by exactly 5 characters, each a lowercase letter, a digit
  or the hyphen, 6 characters in all, made from 5 draws. It is new: it becomes \<open>newID\<close>
  and is appended, after one space, to the line in place of the white space at its end.
  The only other outcome is the SyntaxError of \<open>new RegExp\<close> in the two line-carry modes.
\<close>

theorem C9_new_token_shape:
  assumes "matchText lineText blockIDRegex = None"
  shows "\<exists>ident. genID (random host) 5 k = (ident, k + 5)
           \<and> length ident = 5
           \<and> list_all isTokenChar ident
           \<and> (case linkUnit host settings copy linkText' lineText copiedLine (prevID, k) of
                 Inl x \<Rightarrow>
                   copy \<noteq> LinkOnly \<and> copy \<noteq> LinkOnlyEmbed
                   \<and> (\<exists>e. newRegExp host (lineFormatFrom settings) = Inl e \<and> x = SyntaxError e)
               | Inr (line', copiedLine', newID', k') \<Rightarrow>
                   newID' = CHR ''^'' # ident \<and> length newID' = 6
                   \<and> line' = take (trailingSpaceIndex lineText) lineText @ CHR '' '' # newID'
                   \<and> k' = k + 5)"
proof -
  obtain ident k' where g: "genID (random host) 5 k = (ident, k')"
    by (cases "genID (random host) 5 k")
  from genID_spec[OF g]
  have len: "length ident = 5" and k': "k' = k + 5" and sub: "set ident \<subseteq> set characters"
    by auto
  have alpha: "list_all isTokenChar ident"
    using sub characters_alphabet by (auto simp: list_all_iff)
  have nd: "CHR ''$'' \<notin> set (CHR '' '' # CHR ''^'' # ident)"
    using sub characters_no_dollar by auto
  have rt: "replaceRegExp lineText trailingSpaceRegex (CHR '' '' # CHR ''^'' # ident)
              = take (trailingSpaceIndex lineText) lineText @ CHR '' '' # CHR ''^'' # ident"
    by (rule replace_trailing[OF nd])
  have "case linkUnit host settings copy linkText' lineText copiedLine (prevID, k) of
                 Inl x \<Rightarrow>
                   copy \<noteq> LinkOnly \<and> copy \<noteq> LinkOnlyEmbed
                   \<and> (\<exists>e. newRegExp host (lineFormatFrom settings) = Inl e \<and> x = SyntaxError e)
               | Inr (line', copiedLine', newID', k') \<Rightarrow>
                   newID' = CHR ''^'' # ident \<and> length newID' = 6
                   \<and> line' = take (trailingSpaceIndex lineText) lineText @ CHR '' '' # newID'
                   \<and> k' = k + 5"
    using assms g len k' rt
    by (cases "newRegExp host (lineFormatFrom settings)") (auto simp: linkUnit_def Let_def)
  with g len k' alpha show ?thesis by blast
qed

theorem C9_new_token_shape_witness:
  "matchText ''hello'' blockIDRegex = None
   \<and> genID (random exampleHost) 5 0 = (''abcde'', 5)
   \<and> list_all isTokenChar ''abcde''
   \<and> linkUnit exampleHost DEFAULT_SETTINGS SeparateLines [] ''hello'' ''hello'' ([], 0)
       = Inr (''hello ^abcde'', ''hello (see [[note#^abcde]])'', ''^abcde'', 5)"
proof -
  have h: "matchText ''hello'' blockIDRegex = None" by code_simp
  have g: "genID (random exampleHost) 5 0 = (''abcde'', 5)" by code_simp
  have r: "linkUnit exampleHost DEFAULT_SETTINGS SeparateLines [] ''hello'' ''hello'' ([], 0)
       = Inr (''hello ^abcde'', ''hello (see [[note#^abcde]])'', ''^abcde'', 5)" by code_simp
  from C9_new_token_shape[OF h, where host = exampleHost and k = 0]
  obtain ident where "genID (random exampleHost) 5 0 = (ident, 0 + 5)" "list_all isTokenChar ident"
    by blast
  with g have "list_all isTokenChar ''abcde''" by simp
  with h g r show ?thesis by blast
qed

text \<open>
  C10. The spec says the first \<open>{{LINK}}\<close> of a template is replaced with the link and
  later ones stay. The link is passed to \<open>replace\<close> as the replacement string, where
  \<open>$$\<close>, \<open>$&\<close> and the other patterns are expanded. Here the code is run in LinkOnly
  mode with the link text taken from the selection \<open>$$x$$\<close> and the template
  \<open>{{LINK}} / {{LINK}}\<close>: the link is \<open>[[note#^abcde|$$x$$]]\<close>, yet the first
  placeholder becomes \<open>[[note#^abcde|$x$]]\<close>. The second placeholder stays. With
  \<open>$&\<close> in the link, the text put in place of the first placeholder contains
  \<open>{{LINK}}\<close> itself.
\<close>

theorem C10_dollar_patterns_in_link_expanded:
  "generateMarkdownLink exampleHost ''/'' ''#^abcde'' ''$$x$$'' = ''[[note#^abcde|$$x$$]]''
   \<and> copyForwardLoop exampleHost (editorOf [''$$x$$''] (0, 0) (0, 5) ''$$x$$'')
         (DEFAULT_SETTINGS\<lparr>copiedLinkText := ''{{LINK}} / {{LINK}}''\<rparr>)
         LinkOnly LinkTextFromSelection 0 initialState
       = Inr \<lparr>updatedLines = [''$$x$$ ^abcde''],
              copiedLines = [''[[note#^abcde|$x$]] / {{LINK}}''],
              newID = ''^abcde'', draws = 5\<rparr>
   \<and> replaceString ''{{LINK}} / {{LINK}}'' ''{{LINK}}'' ''[[note#^abcde|$&]]''
       = ''[[note#^abcde|{{LINK}}]] / {{LINK}}''"
  by code_simp

end
